theory Spec2Isabelle
  imports
    Complex_Main
    "HOL-Library.Char_ord"
    "HOL-Library.List_Lexorder"
    "HOL-Library.Product_Lexorder"
begin

section \<open>Electoral tracking: tracking\_electoral.py\<close>

text \<open>
  A shallow embedding of \<^verbatim>\<open>src/tracking_electoral.py\<close>. A data frame of survey answers
  is a list of rows in index order; every cell is an \<open>option\<close>, with \<open>None\<close> for the
  missing value (NaN, NA, NaT). Floating-point columns are modelled by exact rationals.

  A text is a list of characters. The methods \<^verbatim>\<open>str.strip\<close>, \<^verbatim>\<open>str.lower\<close> and
  \<^verbatim>\<open>str.title\<close> are modelled for ASCII texts only (\<open>es_ascii\<close>): Python's methods follow
  the Unicode character database, which is not part of this development, so on a text
  with a character outside ASCII the functions below say nothing about the program.
  Every statement whose truth depends on what these methods return assumes that the
  texts they are applied to are ASCII (\<open>tabla_ascii\<close> for the stratum, vote and previous
  vote of a table).
\<close>

subsection \<open>Python string methods\<close>

definition is_space :: "char \<Rightarrow> bool" where
  "is_space c = (let k = (of_char c :: nat) in (9 \<le> k \<and> k \<le> 13) \<or> (28 \<le> k \<and> k \<le> 32))"

definition is_lower :: "char \<Rightarrow> bool" where
  "is_lower c = (let k = (of_char c :: nat) in 97 \<le> k \<and> k \<le> 122)"

definition is_upper :: "char \<Rightarrow> bool" where
  "is_upper c = (let k = (of_char c :: nat) in 65 \<le> k \<and> k \<le> 90)"

definition to_lower :: "char \<Rightarrow> char" where
  "to_lower c = (if is_upper c then char_of (of_char c + (32::nat)) else c)"

definition to_upper :: "char \<Rightarrow> char" where
  "to_upper c = (if is_lower c then char_of (of_char c - (32::nat)) else c)"

text \<open>\<^verbatim>\<open>str.lower\<close>.\<close>

definition lower :: "string \<Rightarrow> string" where
  "lower s = map to_lower s"

text \<open>
  \<^verbatim>\<open>str.title\<close>: a cased character is upper-cased when the character before it is
  not cased (or there is none) and lower-cased otherwise; the flag is whether the
  previous character was cased.
\<close>

fun title_aux :: "bool \<Rightarrow> string \<Rightarrow> string" where
  "title_aux prev [] = []"
| "title_aux prev (c # cs) =
     (if is_lower c then (if prev then c else to_upper c) # title_aux True cs
      else if is_upper c then (if prev then to_lower c else c) # title_aux True cs
      else c # title_aux False cs)"

definition title :: "string \<Rightarrow> string" where
  "title s = title_aux False s"

text \<open>\<^verbatim>\<open>str.strip\<close> with no argument: white space is removed at both ends.\<close>

definition strip :: "string \<Rightarrow> string" where
  "strip s = rev (dropWhile is_space (rev (dropWhile is_space s)))"



subsection \<open>Rows of the survey table\<close>

text \<open>
  The columns of \<^verbatim>\<open>DATA_COLUMNS\<close>. \<open>Fecha\<close> is a point in time as an integer.
  The cleaned table has three more columns.
\<close>

record fila =
  Fecha :: "int option"
  Encuesta :: "string option"
  Estrato :: "string option"
  Sexo :: "string option"
  Edad :: "int option"
  Nivel_Educativo :: "string option"
  Integrantes_Hogar :: "int option"
  Imagen_del_Candidato :: "rat option"
  Voto :: "string option"
  Voto_Anterior :: "string option"

record fila_limpia = fila +
  Imagen_Normalizada :: "rat option"
  IntencionVoto :: int
  Edad_Rango :: "string option"

subsection \<open>The pandas operations used by the cleaner\<close>

text \<open>
  \<^verbatim>\<open>DataFrame.drop_duplicates(subset=...)\<close> with the default \<^verbatim>\<open>keep="first"\<close>: a row is
  dropped when its key was seen in an earlier row. Missing values are equal to each
  other in a key.
\<close>

fun drop_duplicates_aux :: "('r \<Rightarrow> 'k) \<Rightarrow> 'k list \<Rightarrow> 'r list \<Rightarrow> 'r list" where
  "drop_duplicates_aux key seen [] = []"
| "drop_duplicates_aux key seen (r # rs) =
     (if key r \<in> set seen then drop_duplicates_aux key seen rs
      else r # drop_duplicates_aux key (key r # seen) rs)"

definition drop_duplicates :: "('r \<Rightarrow> 'k) \<Rightarrow> 'r list \<Rightarrow> 'r list" where
  "drop_duplicates key df = drop_duplicates_aux key [] df"

text \<open>
  \<^verbatim>\<open>DataFrame.dropna(subset=...)\<close>: a row is dropped when any of the listed columns
  is missing in it. A column is given by its test for the missing value.
\<close>

definition dropna :: "('r \<Rightarrow> bool) list \<Rightarrow> 'r list \<Rightarrow> 'r list" where
  "dropna cols df = filter (\<lambda>r. \<not> list_ex (\<lambda>isna. isna r) cols) df"

text \<open>\<^verbatim>\<open>Series.astype(str)\<close> on a string column: the missing value becomes a text.\<close>

definition astype_str :: "string option \<Rightarrow> string" where
  "astype_str v = (case v of None \<Rightarrow> ''<NA>'' | Some s \<Rightarrow> s)"

text \<open>\<^verbatim>\<open>Series.clip(lower, upper)\<close> on one value.\<close>

definition clip :: "rat \<Rightarrow> rat \<Rightarrow> rat \<Rightarrow> rat" where
  "clip lo hi x = min (max x lo) hi"

text \<open>
  \<^verbatim>\<open>pd.cut(x, bins, labels)\<close> with the default \<^verbatim>\<open>right=True\<close>: the label of the
  interval \<open>(lo, hi]\<close> that holds the value, none outside the bins or for a missing
  value.
\<close>

fun cut_aux :: "int \<Rightarrow> int list \<Rightarrow> string list \<Rightarrow> string option" where
  "cut_aux x (lo # hi # bins) (l # labels) =
     (if lo < x \<and> x \<le> hi then Some l else cut_aux x (hi # bins) labels)"
| "cut_aux x bins labels = None"

definition cut :: "int option \<Rightarrow> int list \<Rightarrow> string list \<Rightarrow> string option" where
  "cut v bins labels = (case v of None \<Rightarrow> None | Some x \<Rightarrow> cut_aux x bins labels)"

subsection \<open>limpiar\_datos\<close>

definition estratos_validos :: "(string \<times> string) list" where
  "estratos_validos = [(''bajo'', ''Bajo''), (''medio'', ''Medio''), (''alto'', ''Alto'')]"

definition clave :: "'a fila_scheme \<Rightarrow> string option \<times> string option \<times> string option \<times> int option" where
  "clave r = (Encuesta r, Estrato r, Sexo r, Edad r)"

definition columnas_obligatorias :: "('a fila_scheme \<Rightarrow> bool) list" where
  "columnas_obligatorias =
     [\<lambda>r. Fecha r = None, \<lambda>r. Imagen_del_Candidato r = None,
      \<lambda>r. Voto r = None, \<lambda>r. Voto_Anterior r = None]"

text \<open>The columns computed from a row whose text columns are already normalised.\<close>

definition derivadas :: "string \<Rightarrow> 'a fila_scheme \<Rightarrow> fila_limpia" where
  "derivadas candidato_objetivo r =
     \<lparr>Fecha = Fecha r, Encuesta = Encuesta r, Estrato = Estrato r, Sexo = Sexo r,
      Edad = Edad r, Nivel_Educativo = Nivel_Educativo r,
      Integrantes_Hogar = Integrantes_Hogar r,
      Imagen_del_Candidato = Imagen_del_Candidato r,
      Voto = Voto r, Voto_Anterior = Voto_Anterior r,
      Imagen_Normalizada = map_option (\<lambda>x. clip 0 100 x / 100) (Imagen_del_Candidato r),
      IntencionVoto = (if Voto r = Some (title candidato_objetivo) then 1 else 0),
      Edad_Rango = cut (Edad r) [17, 29, 44, 59, 120] [''18-29'', ''30-44'', ''45-59'', ''60+'']\<rparr>"

definition limpiar_datos :: "string \<Rightarrow> 'a fila_scheme list \<Rightarrow> fila_limpia list" where
  "limpiar_datos candidato_objetivo df =
     (let df1 = drop_duplicates clave df;
          df2 = dropna columnas_obligatorias df1;
          df3 = map (\<lambda>r. r\<lparr>Estrato :=
                  map_of estratos_validos (lower (strip (astype_str (Estrato r))))\<rparr>) df2;
          df4 = dropna [\<lambda>r. Estrato r = None] df3;
          df5 = map (\<lambda>r. r\<lparr>Voto := Some (title (strip (astype_str (Voto r))))\<rparr>) df4;
          df6 = map (\<lambda>r. r\<lparr>Voto_Anterior :=
                  Some (title (strip (astype_str (Voto_Anterior r))))\<rparr>) df5
      in map (derivadas candidato_objetivo) df6)"


subsection \<open>Reductions over a column\<close>

fun no_nulos :: "'a option list \<Rightarrow> 'a list" where
  "no_nulos [] = []"
| "no_nulos (None # vs) = no_nulos vs"
| "no_nulos (Some v # vs) = v # no_nulos vs"

definition mean :: "rat list \<Rightarrow> rat" where
  "mean xs = sum_list xs / of_nat (length xs)"

definition median :: "rat list \<Rightarrow> rat" where
  "median xs =
     (let s = sort xs; k = length s
      in if odd k then s ! (k div 2) else (s ! (k div 2 - 1) + s ! (k div 2)) / 2)"

text \<open>
  The aggregations \<^verbatim>\<open>"mean"\<close> and \<^verbatim>\<open>"count"\<close> of \<^verbatim>\<open>groupby(...).agg\<close> on the
  values of one group: missing values are left out; the mean of no value at all is
  missing.
\<close>

definition agg_mean :: "rat option list \<Rightarrow> rat option" where
  "agg_mean col = (let obs = no_nulos col in if obs = [] then None else Some (mean obs))"

definition agg_count :: "'a option list \<Rightarrow> nat" where
  "agg_count col = length (no_nulos col)"

subsection \<open>indicadores\_sociodemograficos\<close>

record fila_resumen =
  Fecha_r :: int
  Sexo_r :: string
  Edad_Rango_r :: string
  n_resumen :: nat
  imagen_media :: "rat option"
  intencion_media :: "rat option"

text \<open>
  The key of a row under \<^verbatim>\<open>groupby(["Fecha", "Sexo", "Edad Rango"])\<close>; with the default
  \<^verbatim>\<open>dropna=True\<close> a row with a missing key column belongs to no group.
\<close>

definition clave_resumen :: "'a fila_limpia_scheme \<Rightarrow> (int \<times> string \<times> string) option" where
  "clave_resumen r =
     (case Fecha r of None \<Rightarrow> None | Some d \<Rightarrow>
       (case Sexo r of None \<Rightarrow> None | Some s \<Rightarrow>
         (case Edad_Rango r of None \<Rightarrow> None | Some b \<Rightarrow> Some (d, s, b))))"

text \<open>The position of an age bracket among the categories made by \<^verbatim>\<open>pd.cut\<close>.\<close>

definition codigo_rango :: "string \<Rightarrow> nat" where
  "codigo_rango b =
     (if b = ''18-29'' then 0 else if b = ''30-44'' then 1
      else if b = ''45-59'' then 2 else if b = ''60+'' then 3 else 4)"

text \<open>The groups that occur (\<^verbatim>\<open>observed=True\<close>), in the order of their keys.\<close>

definition grupos_resumen :: "'a fila_limpia_scheme list \<Rightarrow> (int \<times> string \<times> string) list" where
  "grupos_resumen df =
     sort_key (\<lambda>(d, s, b). (d, s, codigo_rango b)) (remdups (no_nulos (map clave_resumen df)))"

definition indicadores_sociodemograficos :: "'a fila_limpia_scheme list \<Rightarrow> fila_resumen list" where
  "indicadores_sociodemograficos df =
     map (\<lambda>(d, s, b).
            let g = filter (\<lambda>r. clave_resumen r = Some (d, s, b)) df
            in \<lparr>Fecha_r = d, Sexo_r = s, Edad_Rango_r = b,
                n_resumen = agg_count (map Encuesta g),
                imagen_media = agg_mean (map Imagen_del_Candidato g),
                intencion_media = agg_mean (map (\<lambda>r. Some (of_int (IntencionVoto r))) g)\<rparr>)
         (grupos_resumen df)"

subsection \<open>aplicar\_funcion\_ventana\<close>

datatype error = ValueError string | KeyError string | DataError

text \<open>
  A data frame with named columns, as the windower reads it: a column holds numbers
  or dates. Only a numeric column can be aggregated over a window; on a date column
  the aggregation raises \<^verbatim>\<open>DataError\<close>.
\<close>

datatype columna = ColNum "rat option list" | ColFecha "int option list"

type_synonym dataframe = "(string \<times> columna) list"

text \<open>
  \<^verbatim>\<open>Series.rolling(window, min_periods)\<close> followed by an aggregation: the window of row
  \<open>i\<close> starts at row \<open>max 0 (i + 1 - window)\<close> and ends with row \<open>i\<close>; the result is
  the aggregation of the values of the window that are not missing, and is missing
  when there are fewer than \<open>min_periods\<close> of them.
\<close>

definition rolling :: "int \<Rightarrow> nat \<Rightarrow> (rat list \<Rightarrow> rat) \<Rightarrow> rat option list \<Rightarrow> rat option list" where
  "rolling window min_periods agg xs =
     map (\<lambda>i. let start = nat (max 0 (int i + 1 - window));
                   obs = no_nulos (take (Suc i - start) (drop start xs))
               in if min_periods \<le> length obs then Some (agg obs) else None)
       [0..<length xs]"

definition rolling_agg :: "int \<Rightarrow> (rat list \<Rightarrow> rat) \<Rightarrow> columna \<Rightarrow> error + rat option list" where
  "rolling_agg window agg col =
     (case col of ColNum xs \<Rightarrow> Inr (rolling window 1 agg xs) | _ \<Rightarrow> Inl DataError)"

text \<open>
  The messages of the two \<^verbatim>\<open>ValueError\<close> exceptions of the function. The second one has
  the letter o with an acute accent, written here as the two bytes of its UTF-8
  encoding.
\<close>

definition mensaje_ventana :: string where
  "mensaje_ventana = ''La ventana debe ser un entero positivo''"

definition mensaje_funcion :: string where
  "mensaje_funcion = ''Funci'' @ [CHR 0xC3, CHR 0xB3] @ ''n de ventana no soportada''"

text \<open>
  The window is checked first; then \<^verbatim>\<open>df[columna]\<close> raises \<^verbatim>\<open>KeyError\<close> when the table has
  no such column; then the tag is compared with the three supported ones.
\<close>

definition aplicar_funcion_ventana ::
    "dataframe \<Rightarrow> string \<Rightarrow> int \<Rightarrow> string \<Rightarrow> error + rat option list" where
  "aplicar_funcion_ventana df columna ventana funcion =
     (if ventana \<le> 0 then Inl (ValueError mensaje_ventana)
      else case map_of df columna of
             None \<Rightarrow> Inl (KeyError columna)
           | Some col \<Rightarrow>
               if funcion = ''mean'' then rolling_agg ventana mean col
               else if funcion = ''median'' then rolling_agg ventana median col
               else if funcion = ''sum'' then rolling_agg ventana sum_list col
               else Inl (ValueError mensaje_funcion))"

subsection \<open>tracking\_electoral\<close>

record TrackingConfig =
  ventana :: int
  tipo_resumen :: string
  columna_objetivo :: string
  candidato_objetivo :: string
  ruta_grafico :: "string option"

text \<open>The configuration with the default value of every field.\<close>

definition config_defecto :: TrackingConfig where
  "config_defecto =
     \<lparr>ventana = 3, tipo_resumen = ''mean'', columna_objetivo = ''IntencionVoto'',
      candidato_objetivo = ''Candidato A'', ruta_grafico = Some ''output/tracking.png''\<rparr>"

record fila_diaria =
  Fecha_d :: int
  IntencionVoto_d :: "rat option"
  ImagenMedia :: "rat option"

record fila_tracking = fila_diaria +
  TrackingSuavizado :: "rat option"

text \<open>\<^verbatim>\<open>df.groupby("Fecha").agg(...).reset_index()\<close>: one row for each date, by date.\<close>

definition serie_diaria :: "'a fila_limpia_scheme list \<Rightarrow> fila_diaria list" where
  "serie_diaria df =
     map (\<lambda>d. let g = filter (\<lambda>r. Fecha r = Some d) df
              in \<lparr>Fecha_d = d,
                  IntencionVoto_d = agg_mean (map (\<lambda>r. Some (of_int (IntencionVoto r))) g),
                  ImagenMedia = agg_mean (map Imagen_Normalizada g)\<rparr>)
       (sort (remdups (no_nulos (map Fecha df))))"

definition columnas_serie :: "fila_diaria list \<Rightarrow> dataframe" where
  "columnas_serie serie =
     [(''Fecha'', ColFecha (map (\<lambda>s. Some (Fecha_d s)) serie)),
      (''IntencionVoto'', ColNum (map IntencionVoto_d serie)),
      (''ImagenMedia'', ColNum (map ImagenMedia serie))]"

definition tracking_electoral ::
    "'a fila_limpia_scheme list \<Rightarrow> 'b TrackingConfig_scheme \<Rightarrow> error + fila_tracking list" where
  "tracking_electoral df config =
     (let serie = serie_diaria df
      in case aplicar_funcion_ventana (columnas_serie serie) (columna_objetivo config)
                (ventana config) (tipo_resumen config) of
           Inl e \<Rightarrow> Inl e
         | Inr suavizado \<Rightarrow>
             Inr (map (\<lambda>(s, v). \<lparr>Fecha_d = Fecha_d s, IntencionVoto_d = IntencionVoto_d s,
                                  ImagenMedia = ImagenMedia s, TrackingSuavizado = v\<rparr>)
                    (zip serie suavizado)))"

subsection \<open>The cleaner, row by row\<close>

text \<open>
  The steps of \<open>limpiar_datos\<close> after the removal of duplicates act on each row by
  itself: \<open>fila_valida\<close> says that the two \<^verbatim>\<open>dropna\<close> calls keep the row, and
  \<open>limpiar_fila\<close> is the row that the remaining steps make of it.
\<close>

definition normalizar_estrato :: "string option \<Rightarrow> string option" where
  "normalizar_estrato e = map_of estratos_validos (lower (strip (astype_str e)))"

definition fila_valida :: "'a fila_scheme \<Rightarrow> bool" where
  "fila_valida r \<longleftrightarrow>
     Fecha r \<noteq> None \<and> Imagen_del_Candidato r \<noteq> None \<and> Voto r \<noteq> None \<and>
     Voto_Anterior r \<noteq> None \<and> normalizar_estrato (Estrato r) \<noteq> None"

definition limpiar_fila :: "string \<Rightarrow> 'a fila_scheme \<Rightarrow> fila_limpia" where
  "limpiar_fila c r =
     derivadas c (r\<lparr>Estrato := normalizar_estrato (Estrato r),
                     Voto := Some (title (strip (astype_str (Voto r)))),
                     Voto_Anterior := Some (title (strip (astype_str (Voto_Anterior r))))\<rparr>)"

subsection \<open>The window of a row, as the specification words it\<close>

text \<open>
  The rows \<open>a\<close> to \<open>b\<close> of a column, both included; the values present in a list of
  cells; and the reduction named by a tag over the values present: their sum divided
  by their number, the middle one in ascending order (the half sum of the two middle
  ones when their number is even), or their sum. With no value present there is no
  result (at least one observation is required).
\<close>

definition filas_entre :: "'a list \<Rightarrow> nat \<Rightarrow> nat \<Rightarrow> 'a list" where
  "filas_entre xs a b = map (\<lambda>j. xs ! j) [a..<Suc b]"

definition presentes :: "'a option list \<Rightarrow> 'a list" where
  "presentes vs = map the (filter (\<lambda>v. v \<noteq> None) vs)"

definition reduccion :: "string \<Rightarrow> rat option list \<Rightarrow> rat option" where
  "reduccion f vs =
     (let obs = presentes vs; k = length obs; s = sort obs
      in if k = 0 then None
         else Some (if f = ''mean'' then sum_list obs / of_nat k
                    else if f = ''median''
                      then (if odd k then s ! (k div 2) else (s ! (k div 2 - 1) + s ! (k div 2)) / 2)
                    else sum_list obs))"

subsection \<open>The daily means, as the specification words them\<close>

text \<open>
  The mean of a list of values is their sum divided by their number; the rows of a
  date are the rows of the table that have this date.
\<close>

definition promedio :: "rat list \<Rightarrow> rat" where
  "promedio vs = sum_list vs / of_nat (length vs)"

definition filas_de_fecha :: "'a fila_limpia_scheme list \<Rightarrow> int \<Rightarrow> 'a fila_limpia_scheme list" where
  "filas_de_fecha df d = filter (\<lambda>r. Fecha r = Some d) df"

subsection \<open>Example data\<close>

definition fila_ejemplo :: fila where
  "fila_ejemplo =
     \<lparr>Fecha = Some 19723, Encuesta = Some ''E1'', Estrato = Some '' Bajo '', Sexo = Some ''F'',
      Edad = Some 30, Nivel_Educativo = Some ''Secundario'', Integrantes_Hogar = Some 4,
      Imagen_del_Candidato = Some 80, Voto = Some ''Candidate A'',
      Voto_Anterior = Some ''candidate b''\<rparr>"

text \<open>A table with two numeric columns and a date column.\<close>

definition tabla_numeros :: dataframe where
  "tabla_numeros = [(''x'', ColNum [Some 1, Some 2, Some 3, Some 4]),
                    (''y'', ColNum [Some 5, None, None, Some 9, Some 2, Some 4]),
                    (''Fecha'', ColFecha [Some 19723, Some 19724, Some 19725, Some 19726])]"

text \<open>
  Two answers of one date, with the vote and the image score of the example of the
  specification, and four answers of two dates, the later date first.
\<close>

definition tabla_dia :: "fila list" where
  "tabla_dia =
     [fila_ejemplo\<lparr>Imagen_del_Candidato := Some 80, Voto := Some ''Candidato A''\<rparr>,
      fila_ejemplo\<lparr>Encuesta := Some ''E2'', Imagen_del_Candidato := Some 60,
                    Voto := Some ''Candidato B''\<rparr>]"

definition tabla_dias :: "fila list" where
  "tabla_dias =
     [fila_ejemplo\<lparr>Fecha := Some 19724, Imagen_del_Candidato := Some 50,
                    Voto := Some ''candidato a''\<rparr>,
      fila_ejemplo\<lparr>Encuesta := Some ''E2'', Imagen_del_Candidato := Some 60,
                    Voto := Some ''Candidato B''\<rparr>,
      fila_ejemplo\<lparr>Encuesta := Some ''E3'', Imagen_del_Candidato := Some 90,
                    Voto := Some ''Candidato B''\<rparr>,
      fila_ejemplo\<lparr>Encuesta := Some ''E4'', Imagen_del_Candidato := Some 120,
                    Voto := Some ''Candidato A''\<rparr>]"



text \<open>A daily series of two dates.\<close>

definition serie_ejemplo :: "fila_diaria list" where
  "serie_ejemplo =
     [\<lparr>Fecha_d = 19723, IntencionVoto_d = Some (1 / 2), ImagenMedia = Some (7 / 10)\<rparr>,
      \<lparr>Fecha_d = 19724, IntencionVoto_d = Some 1, ImagenMedia = Some (4 / 5)\<rparr>]"

text \<open>Three answers with an image score inside, below and above the range 0 to 100.\<close>

definition tabla_imagenes :: "fila list" where
  "tabla_imagenes =
     [fila_ejemplo\<lparr>Imagen_del_Candidato := Some 50\<rparr>,
      fila_ejemplo\<lparr>Encuesta := Some ''E2'', Imagen_del_Candidato := Some (- 5)\<rparr>,
      fila_ejemplo\<lparr>Encuesta := Some ''E3'', Imagen_del_Candidato := Some 130\<rparr>]"

section \<open>Properties of the string methods\<close>


lemma lower_not_upper: "is_lower c \<Longrightarrow> \<not> is_upper c"
  by (auto simp: is_lower_def is_upper_def Let_def)

lemma to_upper_lower:
  "is_lower c \<Longrightarrow> is_upper (to_upper c) \<and> \<not> is_lower (to_upper c) \<and> \<not> is_space (to_upper c)"
  by (auto simp: is_lower_def is_upper_def is_space_def to_upper_def Let_def)

lemma to_lower_upper:
  "is_upper c \<Longrightarrow> is_lower (to_lower c) \<and> \<not> is_upper (to_lower c) \<and> \<not> is_space (to_lower c)"
  by (auto simp: is_lower_def is_upper_def is_space_def to_lower_def Let_def)

lemma to_lower_to_upper: "is_lower c \<Longrightarrow> to_lower (to_upper c) = c"
proof -
  assume a: "is_lower c"
  then have b: "32 \<le> (of_char c :: nat)" "(of_char c :: nat) \<le> 122"
    by (simp_all add: is_lower_def Let_def)
  have "is_upper (to_upper c)" using a by (simp add: to_upper_lower)
  then have "to_lower (to_upper c) = char_of (of_char (to_upper c) + (32::nat))"
    by (simp add: to_lower_def)
  also have "of_char (to_upper c) = (of_char c :: nat) - 32" using a b by (simp add: to_upper_def)
  also have "(of_char c :: nat) - 32 + 32 = of_char c" using b by simp
  finally show ?thesis by simp
qed

lemma to_upper_to_lower: "is_upper c \<Longrightarrow> to_upper (to_lower c) = c"
proof -
  assume a: "is_upper c"
  then have b: "(of_char c :: nat) + 32 < 256" by (simp add: is_upper_def Let_def)
  have "is_lower (to_lower c)" using a by (simp add: to_lower_upper)
  then have "to_upper (to_lower c) = char_of (of_char (to_lower c) - (32::nat))"
    by (simp add: to_upper_def)
  also have "of_char (to_lower c) = (of_char c :: nat) + 32" using a b by (simp add: to_lower_def)
  also have "(of_char c :: nat) + 32 - 32 = of_char c" by simp
  finally show ?thesis by simp
qed

lemma to_lower_id: "\<not> is_upper c \<Longrightarrow> to_lower c = c"
  by (simp add: to_lower_def)



lemma title_aux_lower: "title_aux p (lower s) = title_aux p s"
  by (induction s arbitrary: p)
     (auto simp: lower_def to_lower_upper to_upper_to_lower to_lower_id lower_not_upper)

lemma lower_title_aux: "lower (title_aux p s) = lower s"
  by (induction s arbitrary: p)
     (auto simp: lower_def to_lower_upper to_lower_to_upper to_lower_id lower_not_upper)

lemma title_eq_iff_lower: "title a = title b \<longleftrightarrow> lower a = lower b"
  by (metis title_def title_aux_lower lower_title_aux)









section \<open>Properties of the cleaner\<close>

lemma limpiar_datos_filas:
  "limpiar_datos c df = map (limpiar_fila c) (filter fila_valida (drop_duplicates clave df))"
  unfolding fila_valida_def[abs_def] limpiar_fila_def[abs_def] normalizar_estrato_def
  by (simp add: limpiar_datos_def Let_def dropna_def columnas_obligatorias_def filter_map
      o_def)

lemma drop_duplicates_aux_subset: "set (drop_duplicates_aux key seen xs) \<subseteq> set xs"
  by (induction xs arbitrary: seen) auto

lemma drop_duplicates_aux_fresh:
  "r \<in> set (drop_duplicates_aux key seen xs) \<Longrightarrow> key r \<notin> set seen"
proof (induction xs arbitrary: seen)
  case Nil
  then show ?case by simp
next
  case (Cons x xs)
  show ?case
  proof (cases "key x \<in> set seen")
    case True
    with Cons show ?thesis by simp
  next
    case False
    with Cons.prems have "r = x \<or> r \<in> set (drop_duplicates_aux key (key x # seen) xs)"
      by simp
    then show ?thesis
    proof
      assume "r = x"
      with False show ?thesis by simp
    next
      assume "r \<in> set (drop_duplicates_aux key (key x # seen) xs)"
      from Cons.IH[OF this] show ?thesis by simp
    qed
  qed
qed





lemma drop_duplicates_aux_first:
  "r \<in> set (drop_duplicates_aux key seen xs) \<Longrightarrow> find (\<lambda>x. key x = key r) xs = Some r"
proof (induction xs arbitrary: seen)
  case Nil
  then show ?case by simp
next
  case (Cons x xs)
  show ?case
  proof (cases "key x \<in> set seen")
    case True
    with Cons.prems have r: "r \<in> set (drop_duplicates_aux key seen xs)" by simp
    then have "key r \<notin> set seen" by (rule drop_duplicates_aux_fresh)
    with True have "key x \<noteq> key r" by auto
    with Cons.IH[OF r] show ?thesis by simp
  next
    case False
    with Cons.prems have "r = x \<or> r \<in> set (drop_duplicates_aux key (key x # seen) xs)" by auto
    then show ?thesis
    proof
      assume "r = x"
      then show ?thesis by simp
    next
      assume r: "r \<in> set (drop_duplicates_aux key (key x # seen) xs)"
      then have "key r \<notin> set (key x # seen)" by (rule drop_duplicates_aux_fresh)
      then have "key x \<noteq> key r" by auto
      with Cons.IH[OF r] show ?thesis by simp
    qed
  qed
qed

lemma normalizar_estrato_cases:
  "normalizar_estrato e = Some v \<Longrightarrow> v = ''Bajo'' \<or> v = ''Medio'' \<or> v = ''Alto''"
  by (auto simp: normalizar_estrato_def estratos_validos_def split: if_splits)




lemma limpiar_datos_mem:
  "t \<in> set (limpiar_datos c df) \<Longrightarrow>
   \<exists>r \<in> set df. fila_valida r \<and> find (\<lambda>x. clave x = clave r) df = Some r \<and> t = limpiar_fila c r"
  unfolding limpiar_datos_filas drop_duplicates_def
  using drop_duplicates_aux_first[of _ clave "[]" df] drop_duplicates_aux_subset[of clave "[]" df]
  by auto

text \<open>
  Claim C3. Every row of the cleaned table has a candidate image score \<open>x\<close>; its
  normalised image is 0 when \<open>x\<close> is below 0, 1 when \<open>x\<close> is above 100 and \<open>x / 100\<close>
  otherwise, that is the score clipped to the range from 0 to 100 and divided by 100,
  and it lies between 0 and 1; its vote intention is 0 or 1; its stratum is one of
  Bajo, Medio and Alto.
\<close>

theorem limpiar_datos_rangos:
  "\<forall>r \<in> set (limpiar_datos c df).
     (\<exists>x y. Imagen_del_Candidato r = Some x \<and> Imagen_Normalizada r = Some y
          \<and> y = (if x < 0 then 0 else if 100 < x then 1 else x / 100)
          \<and> 0 \<le> y \<and> y \<le> 1)
     \<and> (IntencionVoto r = 0 \<or> IntencionVoto r = 1)
     \<and> (Estrato r = Some ''Bajo'' \<or> Estrato r = Some ''Medio'' \<or> Estrato r = Some ''Alto'')"
proof
  fix r assume "r \<in> set (limpiar_datos c df)"
  then obtain r0 where r0: "r0 \<in> set df" "fila_valida r0" "r = limpiar_fila c r0"
    using limpiar_datos_mem by blast
  from r0(2) obtain x v where x: "Imagen_del_Candidato r0 = Some x"
    and v: "normalizar_estrato (Estrato r0) = Some v"
    by (auto simp: fila_valida_def)
  define y where "y = (if x < 0 then 0 else if 100 < x then 1 else x / 100)"
  have "clip 0 100 x / 100 = y" by (simp add: clip_def y_def)
  then have 1: "Imagen_del_Candidato r = Some x \<and> Imagen_Normalizada r = Some y"
    using r0(3) x by (simp add: limpiar_fila_def derivadas_def)
  have 2: "0 \<le> y \<and> y \<le> 1" by (simp add: y_def)
  have 3: "IntencionVoto r = 0 \<or> IntencionVoto r = 1"
    using r0(3) by (simp add: limpiar_fila_def derivadas_def)
  have "Estrato r = Some v" using r0(3) v by (simp add: limpiar_fila_def derivadas_def)
  with normalizar_estrato_cases[OF v]
  have 4: "Estrato r = Some ''Bajo'' \<or> Estrato r = Some ''Medio'' \<or> Estrato r = Some ''Alto''"
    by auto
  from 1 2 3 4 y_def
  show "(\<exists>x y. Imagen_del_Candidato r = Some x \<and> Imagen_Normalizada r = Some y
          \<and> y = (if x < 0 then 0 else if 100 < x then 1 else x / 100)
          \<and> 0 \<le> y \<and> y \<le> 1)
     \<and> (IntencionVoto r = 0 \<or> IntencionVoto r = 1)
     \<and> (Estrato r = Some ''Bajo'' \<or> Estrato r = Some ''Medio'' \<or> Estrato r = Some ''Alto'')"
    by blast
qed

text \<open>
  The scores 50, -5 and 130 are normalised to 1/2, 0 and 1.
\<close>

theorem limpiar_datos_rangos_witness:
  "length (limpiar_datos ''Candidato A'' tabla_imagenes) = 3
   \<and> map Imagen_del_Candidato (limpiar_datos ''Candidato A'' tabla_imagenes)
       = [Some 50, Some (- 5), Some 130]
   \<and> map Imagen_Normalizada (limpiar_datos ''Candidato A'' tabla_imagenes)
       = [Some (1 / 2), Some 0, Some 1]
   \<and> map IntencionVoto (limpiar_datos ''Candidato A'' tabla_imagenes) = [0, 0, 0]
   \<and> map Estrato (limpiar_datos ''Candidato A'' tabla_imagenes)
       = [Some ''Bajo'', Some ''Bajo'', Some ''Bajo'']"
proof -
  let ?X = "limpiar_datos ''Candidato A'' tabla_imagenes"
  have l: "length ?X = 3" by code_simp
  have s: "map Imagen_del_Candidato ?X = [Some 50, Some (- 5), Some 130]" by code_simp
  have v: "map IntencionVoto ?X = [0, 0, 0]" by code_simp
  have e: "map Estrato ?X = [Some ''Bajo'', Some ''Bajo'', Some ''Bajo'']" by code_simp
  from l obtain r1 r2 r3 where X: "?X = [r1, r2, r3]"
    by (auto simp: length_Suc_conv numeral_3_eq_3)
  from s X have sc: "Imagen_del_Candidato r1 = Some 50" "Imagen_del_Candidato r2 = Some (- 5)"
    "Imagen_del_Candidato r3 = Some 130" by simp_all
  have "\<forall>r \<in> set [r1, r2, r3].
     \<exists>x y. Imagen_del_Candidato r = Some x \<and> Imagen_Normalizada r = Some y
          \<and> y = (if x < 0 then 0 else if 100 < x then 1 else x / 100)"
    using limpiar_datos_rangos[of "''Candidato A''" tabla_imagenes] unfolding X by blast
  with sc have "Imagen_Normalizada r1 = Some (1 / 2)" "Imagen_Normalizada r2 = Some 0"
    "Imagen_Normalizada r3 = Some 1" by auto
  then have "map Imagen_Normalizada ?X = [Some (1 / 2), Some 0, Some 1]" unfolding X by simp
  with l s v e show ?thesis by simp
qed




section \<open>Properties of the windower\<close>

lemma mensajes_distintos: "mensaje_ventana \<noteq> mensaje_funcion"
  by (simp add: mensaje_ventana_def mensaje_funcion_def)

lemma no_nulos_presentes: "no_nulos vs = presentes vs"
  by (induction vs rule: no_nulos.induct) (simp_all add: presentes_def)

lemma ventana_filas:
  assumes "i < length xs" and "a \<le> i"
  shows "take (Suc i - a) (drop a xs) = filas_entre xs a i"
proof (rule nth_equalityI)
  show "length (take (Suc i - a) (drop a xs)) = length (filas_entre xs a i)"
    using assms by (simp add: filas_entre_def)
next
  fix j assume "j < length (take (Suc i - a) (drop a xs))"
  then have j: "j < Suc i - a" by simp
  then have "[a..<Suc i] ! j = a + j" by (intro nth_upt) simp
  with j assms show "take (Suc i - a) (drop a xs) ! j = filas_entre xs a i ! j"
    by (simp add: filas_entre_def del: upt_Suc)
qed

lemma rolling_length: "length (rolling w m agg xs) = length xs"
  by (simp add: rolling_def)

lemma rolling_nth:
  assumes "i < length xs" and "0 < w"
  shows "rolling w 1 agg xs ! i =
           (let obs = presentes (filas_entre xs (nat (max 0 (int i - w + 1))) i)
            in if obs = [] then None else Some (agg obs))"
proof -
  let ?a = "nat (max 0 (int i + 1 - w))"
  have a: "?a \<le> i" using assms(2) by simp
  have e: "nat (max 0 (int i - w + 1)) = ?a" by (simp add: algebra_simps)
  have "rolling w 1 agg xs ! i =
          (let obs = no_nulos (take (Suc i - ?a) (drop ?a xs))
           in if 1 \<le> length obs then Some (agg obs) else None)"
    using assms(1) by (simp add: rolling_def Let_def del: upt_Suc)
  also have "take (Suc i - ?a) (drop ?a xs) = filas_entre xs ?a i"
    using assms(1) a by (rule ventana_filas)
  finally show ?thesis
    by (simp add: e no_nulos_presentes Let_def Suc_le_eq)
qed

lemma reduccion_agg:
  "reduccion ''mean'' vs = (let obs = presentes vs in if obs = [] then None else Some (mean obs))"
  "reduccion ''median'' vs = (let obs = presentes vs in if obs = [] then None else Some (median obs))"
  "reduccion ''sum'' vs = (let obs = presentes vs in if obs = [] then None else Some (sum_list obs))"
  by (simp_all add: reduccion_def mean_def median_def Let_def)

lemma reduccion_uno:
  assumes "f = ''mean'' \<or> f = ''median'' \<or> f = ''sum''"
  shows "reduccion f [v] = v"
  using assms by (cases v) (auto simp: reduccion_def presentes_def Let_def)

lemma aplicar_funcion_ventana_nth:
  assumes "0 < w" and "f = ''mean'' \<or> f = ''median'' \<or> f = ''sum''"
    and "map_of df col = Some (ColNum xs)"
  shows "\<exists>ys. aplicar_funcion_ventana df col w f = Inr ys \<and> length ys = length xs
     \<and> (\<forall>i<length xs. ys ! i = reduccion f (filas_entre xs (nat (max 0 (int i - w + 1))) i))"
proof -
  from assms(2) obtain agg where agg: "aplicar_funcion_ventana df col w f = Inr (rolling w 1 agg xs)"
    and red: "\<And>vs. reduccion f vs = (let obs = presentes vs in if obs = [] then None else Some (agg obs))"
    using assms(1,3) reduccion_agg
    by (auto simp: aplicar_funcion_ventana_def rolling_agg_def)
  have "\<forall>i<length xs. rolling w 1 agg xs ! i =
          reduccion f (filas_entre xs (nat (max 0 (int i - w + 1))) i)"
    using rolling_nth[OF _ assms(1), of _ xs agg] red by simp
  with agg show ?thesis by (simp add: rolling_length)
qed

text \<open>
  Claim C10. The window is checked before the tag: with a window of 0 or less the
  windower raises the error of the window, whatever the table, the column and the tag,
  a tag that is not supported included; and when it raises the error of the unsupported
  tag, the window is at least 1.
\<close>

theorem ventana_antes_que_funcion:
  "(w \<le> 0 \<longrightarrow> aplicar_funcion_ventana df col w f = Inl (ValueError mensaje_ventana))
   \<and> (aplicar_funcion_ventana df col w f = Inl (ValueError mensaje_funcion) \<longrightarrow> 1 \<le> w)"
  using mensajes_distintos by (auto simp: aplicar_funcion_ventana_def)

theorem ventana_antes_que_funcion_witness:
  "aplicar_funcion_ventana tabla_numeros ''x'' 0 ''moda'' = Inl (ValueError mensaje_ventana)
   \<and> aplicar_funcion_ventana tabla_numeros ''x'' (- 2) ''moda'' = Inl (ValueError mensaje_ventana)
   \<and> aplicar_funcion_ventana tabla_numeros ''x'' 2 ''moda'' = Inl (ValueError mensaje_funcion)
   \<and> (1::int) \<le> 2"
proof -
  have a: "aplicar_funcion_ventana tabla_numeros ''x'' 0 ''moda'' = Inl (ValueError mensaje_ventana)"
    using ventana_antes_que_funcion[of 0 tabla_numeros "''x''" "''moda''"] by simp
  have b: "aplicar_funcion_ventana tabla_numeros ''x'' (- 2) ''moda'' = Inl (ValueError mensaje_ventana)"
    using ventana_antes_que_funcion[of "- 2" tabla_numeros "''x''" "''moda''"] by simp
  have c: "aplicar_funcion_ventana tabla_numeros ''x'' 2 ''moda'' = Inl (ValueError mensaje_funcion)"
    by code_simp
  with ventana_antes_que_funcion[of 2 tabla_numeros "''x''" "''moda''"]
  have "(1::int) \<le> 2" by blast
  with a b c show ?thesis by blast
qed

text \<open>
  Claim C5, as amended. With a window of 0 or less the windower raises the error of the
  window. With a positive window: a column that the table does not have raises
  \<^verbatim>\<open>KeyError\<close>, whatever the tag; for a column of the table, a tag other than mean, median
  and sum raises the error of the unsupported tag; with one of these three tags a
  numeric column gives a result, and a date column raises \<^verbatim>\<open>DataError\<close>.
\<close>

theorem ventana_errores:
  "(w \<le> 0 \<longrightarrow> aplicar_funcion_ventana df col w f = Inl (ValueError mensaje_ventana))
   \<and> (0 < w \<and> map_of df col = None \<longrightarrow> aplicar_funcion_ventana df col w f = Inl (KeyError col))
   \<and> (0 < w \<and> map_of df col \<noteq> None \<and> f \<noteq> ''mean'' \<and> f \<noteq> ''median'' \<and> f \<noteq> ''sum'' \<longrightarrow>
        aplicar_funcion_ventana df col w f = Inl (ValueError mensaje_funcion))
   \<and> (0 < w \<and> (f = ''mean'' \<or> f = ''median'' \<or> f = ''sum'')
        \<and> (\<exists>xs. map_of df col = Some (ColNum xs)) \<longrightarrow>
        (\<exists>ys. aplicar_funcion_ventana df col w f = Inr ys))
   \<and> (0 < w \<and> (f = ''mean'' \<or> f = ''median'' \<or> f = ''sum'')
        \<and> (\<exists>ds. map_of df col = Some (ColFecha ds)) \<longrightarrow>
        aplicar_funcion_ventana df col w f = Inl DataError)"
  by (auto simp: aplicar_funcion_ventana_def rolling_agg_def)

theorem ventana_errores_witness:
  "aplicar_funcion_ventana tabla_numeros ''x'' 0 ''mean'' = Inl (ValueError mensaje_ventana)
   \<and> aplicar_funcion_ventana tabla_numeros ''z'' 2 ''mean'' = Inl (KeyError ''z'')
   \<and> aplicar_funcion_ventana tabla_numeros ''x'' 2 ''moda'' = Inl (ValueError mensaje_funcion)
   \<and> (\<exists>ys. aplicar_funcion_ventana tabla_numeros ''x'' 2 ''sum'' = Inr ys)
   \<and> aplicar_funcion_ventana tabla_numeros ''x'' 2 ''sum'' = Inr [Some 1, Some 3, Some 5, Some 7]
   \<and> aplicar_funcion_ventana tabla_numeros ''Fecha'' 2 ''median'' = Inl DataError"
proof -
  have x: "map_of tabla_numeros ''x'' = Some (ColNum [Some 1, Some 2, Some 3, Some 4])"
    by code_simp
  have z: "map_of tabla_numeros ''z'' = None" by code_simp
  have d: "map_of tabla_numeros ''Fecha'' = Some (ColFecha [Some 19723, Some 19724, Some 19725, Some 19726])"
    by code_simp
  have 1: "aplicar_funcion_ventana tabla_numeros ''x'' 0 ''mean'' = Inl (ValueError mensaje_ventana)"
    using ventana_errores[of 0 tabla_numeros "''x''" "''mean''"] by simp
  have 2: "aplicar_funcion_ventana tabla_numeros ''z'' 2 ''mean'' = Inl (KeyError ''z'')"
    using ventana_errores[of 2 tabla_numeros "''z''" "''mean''"] z by simp
  have 3: "aplicar_funcion_ventana tabla_numeros ''x'' 2 ''moda'' = Inl (ValueError mensaje_funcion)"
    using ventana_errores[of 2 tabla_numeros "''x''" "''moda''"] x by simp
  have 4: "\<exists>ys. aplicar_funcion_ventana tabla_numeros ''x'' 2 ''sum'' = Inr ys"
    using ventana_errores[of 2 tabla_numeros "''x''" "''sum''"] x by simp
  have 5: "aplicar_funcion_ventana tabla_numeros ''x'' 2 ''sum'' = Inr [Some 1, Some 3, Some 5, Some 7]"
    by code_simp
  have 6: "aplicar_funcion_ventana tabla_numeros ''Fecha'' 2 ''median'' = Inl DataError"
    using ventana_errores[of 2 tabla_numeros "''Fecha''" "''median''"] d by simp
  from 1 2 3 4 5 6 show ?thesis by blast
qed

text \<open>
  The claim as stated fails on the date column of a daily series, where a positive
  window and a supported tag fail, and on a column that the table does not have, where
  neither a supported nor an unsupported tag gives the error of the unsupported tag.
\<close>

theorem ventana_error_no_previsto:
  "aplicar_funcion_ventana (columnas_serie serie_ejemplo) ''Fecha'' 3 ''mean'' = Inl DataError
   \<and> aplicar_funcion_ventana (columnas_serie serie_ejemplo) ''Imagen'' 3 ''mean''
       = Inl (KeyError ''Imagen'')
   \<and> aplicar_funcion_ventana (columnas_serie serie_ejemplo) ''Imagen'' 3 ''moda''
       = Inl (KeyError ''Imagen'')"
  by code_simp

text \<open>
  Claim C1, as amended. For a numeric column of the table, a positive window \<open>w\<close> and one of
  the tags mean, median and sum, the windower returns a column of the same length whose
  value at row \<open>i\<close> is the reduction named by the tag over the rows from
  \<open>max 0 (i - w + 1)\<close> to \<open>i\<close>; the value at row 0 is the raw value at row 0, and at a row
  \<open>k < w - 1\<close> it is the reduction over the rows from 0 to \<open>k\<close>. For the series 1, 2, 3, 4
  with window 2 and the mean it returns 1, 3/2, 5/2, 7/2.
\<close>

theorem ventana_reduccion:
  "(0 < w \<and> (f = ''mean'' \<or> f = ''median'' \<or> f = ''sum'') \<and> map_of df col = Some (ColNum xs) \<longrightarrow>
      (\<exists>ys. aplicar_funcion_ventana df col w f = Inr ys \<and> length ys = length xs
         \<and> (\<forall>i<length xs. ys ! i = reduccion f (filas_entre xs (nat (max 0 (int i - w + 1))) i))
         \<and> (xs \<noteq> [] \<longrightarrow> ys ! 0 = xs ! 0)
         \<and> (\<forall>k<length xs. int k < w - 1 \<longrightarrow> ys ! k = reduccion f (filas_entre xs 0 k))))
   \<and> aplicar_funcion_ventana [(''x'', ColNum [Some 1, Some 2, Some 3, Some 4])] ''x'' 2 ''mean''
       = Inr [Some 1, Some (3 / 2), Some (5 / 2), Some (7 / 2)]"
proof (intro conjI impI)
  assume h: "0 < w \<and> (f = ''mean'' \<or> f = ''median'' \<or> f = ''sum'') \<and> map_of df col = Some (ColNum xs)"
  then have w: "0 < w" and f: "f = ''mean'' \<or> f = ''median'' \<or> f = ''sum''"
    and c: "map_of df col = Some (ColNum xs)" by simp_all
  from aplicar_funcion_ventana_nth[OF w f c] obtain ys
    where r: "aplicar_funcion_ventana df col w f = Inr ys" and l: "length ys = length xs"
      and v: "\<forall>i<length xs. ys ! i = reduccion f (filas_entre xs (nat (max 0 (int i - w + 1))) i)"
    by blast
  have z: "xs \<noteq> [] \<longrightarrow> ys ! 0 = xs ! 0"
  proof
    assume "xs \<noteq> []"
    then have p: "0 < length xs" by simp
    have "nat (max 0 (int 0 - w + 1)) = 0" using w by simp
    with v p have "ys ! 0 = reduccion f (filas_entre xs 0 0)" by fastforce
    also have "filas_entre xs 0 0 = [xs ! 0]" by (simp add: filas_entre_def)
    finally show "ys ! 0 = xs ! 0" using f by (simp add: reduccion_uno)
  qed
  have b: "\<forall>k<length xs. int k < w - 1 \<longrightarrow> ys ! k = reduccion f (filas_entre xs 0 k)"
  proof (intro allI impI)
    fix k assume k: "k < length xs" and "int k < w - 1"
    then have "nat (max 0 (int k - w + 1)) = 0" by simp
    with v k show "ys ! k = reduccion f (filas_entre xs 0 k)" by fastforce
  qed
  from r l v z b
  show "\<exists>ys. aplicar_funcion_ventana df col w f = Inr ys \<and> length ys = length xs
         \<and> (\<forall>i<length xs. ys ! i = reduccion f (filas_entre xs (nat (max 0 (int i - w + 1))) i))
         \<and> (xs \<noteq> [] \<longrightarrow> ys ! 0 = xs ! 0)
         \<and> (\<forall>k<length xs. int k < w - 1 \<longrightarrow> ys ! k = reduccion f (filas_entre xs 0 k))"
    by blast
next
  show "aplicar_funcion_ventana [(''x'', ColNum [Some 1, Some 2, Some 3, Some 4])] ''x'' 2 ''mean''
       = Inr [Some 1, Some (3 / 2), Some (5 / 2), Some (7 / 2)]"
    by code_simp
qed

text \<open>
  A column with missing values, in an order that is not ascending: sums over a window
  of 2, and medians and means over a window of 3.
\<close>

theorem ventana_reduccion_witness:
  "(\<exists>ys. aplicar_funcion_ventana tabla_numeros ''y'' 2 ''sum'' = Inr ys \<and> length ys = 6
      \<and> ys ! 0 = Some 5 \<and> ys ! 1 = Some 5 \<and> ys ! 2 = None \<and> ys ! 3 = Some 9
      \<and> ys ! 4 = Some 11 \<and> ys ! 5 = Some 6)
   \<and> aplicar_funcion_ventana tabla_numeros ''y'' 3 ''median''
       = Inr [Some 5, Some 5, Some 5, Some 9, Some (11 / 2), Some 4]
   \<and> aplicar_funcion_ventana tabla_numeros ''y'' 3 ''mean''
       = Inr [Some 5, Some 5, Some 5, Some 9, Some (11 / 2), Some 5]"
proof -
  let ?xs = "[Some 5, None, None, Some 9, Some 2, Some (4::rat)]"
  have h: "map_of tabla_numeros ''y'' = Some (ColNum ?xs)" by code_simp
  then have p: "0 < (2::int) \<and> (''sum'' = ''mean'' \<or> ''sum'' = ''median'' \<or> ''sum'' = ''sum'')
      \<and> map_of tabla_numeros ''y'' = Some (ColNum ?xs)" by simp
  from ventana_reduccion[of 2 "''sum''" tabla_numeros "''y''" ?xs, THEN conjunct1, THEN mp, OF p]
  obtain ys where r: "aplicar_funcion_ventana tabla_numeros ''y'' 2 ''sum'' = Inr ys"
    and l: "length ys = length ?xs"
    and v: "\<forall>i<length ?xs. ys ! i = reduccion ''sum'' (filas_entre ?xs (nat (max 0 (int i - 2 + 1))) i)"
    by blast
  have e0: "reduccion ''sum'' (filas_entre ?xs (nat (max 0 (int 0 - 2 + 1))) 0) = Some 5"
    by code_simp
  have e1: "reduccion ''sum'' (filas_entre ?xs (nat (max 0 (int 1 - 2 + 1))) 1) = Some 5"
    by code_simp
  have e2: "reduccion ''sum'' (filas_entre ?xs (nat (max 0 (int 2 - 2 + 1))) 2) = None"
    by code_simp
  have e3: "reduccion ''sum'' (filas_entre ?xs (nat (max 0 (int 3 - 2 + 1))) 3) = Some 9"
    by code_simp
  have e4: "reduccion ''sum'' (filas_entre ?xs (nat (max 0 (int 4 - 2 + 1))) 4) = Some 11"
    by code_simp
  have e5: "reduccion ''sum'' (filas_entre ?xs (nat (max 0 (int 5 - 2 + 1))) 5) = Some 6"
    by code_simp
  have n: "(0::nat) < length ?xs" "(1::nat) < length ?xs" "(2::nat) < length ?xs"
    "(3::nat) < length ?xs" "(4::nat) < length ?xs" "(5::nat) < length ?xs" by simp_all
  have y0: "ys ! 0 = Some 5" using v n(1) e0 by metis
  have y1: "ys ! 1 = Some 5" using v n(2) e1 by metis
  have y2: "ys ! 2 = None" using v n(3) e2 by metis
  have y3: "ys ! 3 = Some 9" using v n(4) e3 by metis
  have y4: "ys ! 4 = Some 11" using v n(5) e4 by metis
  have y5: "ys ! 5 = Some 6" using v n(6) e5 by metis
  from l have l6: "length ys = 6" by simp
  have m: "aplicar_funcion_ventana tabla_numeros ''y'' 3 ''median''
       = Inr [Some 5, Some 5, Some 5, Some 9, Some (11 / 2), Some 4]" by code_simp
  have a: "aplicar_funcion_ventana tabla_numeros ''y'' 3 ''mean''
       = Inr [Some 5, Some 5, Some 5, Some 9, Some (11 / 2), Some 5]" by code_simp
  from r l6 y0 y1 y2 y3 y4 y5 m a show ?thesis by blast
qed

text \<open>
  The claim as stated fails for a column that is not numeric and for a column that the
  table does not have: the windower returns no values.
\<close>

theorem ventana_sin_valores:
  "aplicar_funcion_ventana tabla_numeros ''Fecha'' 3 ''median'' = Inl DataError
   \<and> aplicar_funcion_ventana tabla_numeros ''votos'' 3 ''sum'' = Inl (KeyError ''votos'')"
  by code_simp

section \<open>Properties of the daily series\<close>

lemma no_nulos_set: "set (no_nulos vs) = {v. Some v \<in> set vs}"
  by (induction vs rule: no_nulos.induct) auto

lemma no_nulos_Some: "no_nulos (map Some xs) = xs"
  by (induction xs) simp_all

lemma aplicar_funcion_ventana_length:
  "aplicar_funcion_ventana df col w f = Inr ys \<Longrightarrow>
   \<exists>xs. map_of df col = Some (ColNum xs) \<and> length ys = length xs"
  by (auto simp: aplicar_funcion_ventana_def rolling_agg_def rolling_length
      split: if_splits option.splits columna.splits)

lemma columnas_serie_length:
  "map_of (columnas_serie s) col = Some (ColNum xs) \<Longrightarrow> length xs = length s"
  by (auto simp: columnas_serie_def split: if_splits)

lemma tracking_electoral_filas:
  assumes "tracking_electoral df cfg = Inr serie"
  shows "length serie = length (serie_diaria df) \<and>
         (\<forall>i<length serie. Fecha_d (serie ! i) = Fecha_d (serie_diaria df ! i)
            \<and> IntencionVoto_d (serie ! i) = IntencionVoto_d (serie_diaria df ! i)
            \<and> ImagenMedia (serie ! i) = ImagenMedia (serie_diaria df ! i))"
proof -
  let ?s = "serie_diaria df"
  let ?r = "aplicar_funcion_ventana (columnas_serie ?s) (columna_objetivo cfg) (ventana cfg)
           (tipo_resumen cfg)"
  from assms obtain ys where ys: "?r = Inr ys"
    by (cases ?r) (simp_all add: tracking_electoral_def Let_def)
  with assms have s: "serie = map (\<lambda>(s, v). \<lparr>Fecha_d = Fecha_d s, IntencionVoto_d = IntencionVoto_d s,
                                  ImagenMedia = ImagenMedia s, TrackingSuavizado = v\<rparr>)
                    (zip ?s ys)"
    by (simp add: tracking_electoral_def Let_def)
  from aplicar_funcion_ventana_length[OF ys] obtain xs
    where "map_of (columnas_serie ?s) (columna_objetivo cfg) = Some (ColNum xs)"
      and "length ys = length xs" by blast
  with columnas_serie_length have l: "length ys = length ?s" by metis
  show ?thesis unfolding s using l by simp
qed

lemma serie_diaria_fechas:
  "map Fecha_d (serie_diaria df) = sort (remdups (no_nulos (map Fecha df)))"
  by (simp add: serie_diaria_def Let_def o_def)

lemma serie_diaria_nth:
  assumes "i < length (serie_diaria df)"
  shows "IntencionVoto_d (serie_diaria df ! i) =
           agg_mean (map (\<lambda>r. Some (of_int (IntencionVoto r)))
              (filas_de_fecha df (Fecha_d (serie_diaria df ! i))))
         \<and> ImagenMedia (serie_diaria df ! i) =
           agg_mean (map Imagen_Normalizada (filas_de_fecha df (Fecha_d (serie_diaria df ! i))))"
  using assms by (simp add: serie_diaria_def Let_def filas_de_fecha_def)

lemma agg_mean_Some: "xs \<noteq> [] \<Longrightarrow> agg_mean (map Some xs) = Some (promedio xs)"
  by (simp add: agg_mean_def no_nulos_Some mean_def promedio_def)

lemma serie_diaria_fecha:
  assumes "Some d \<in> set (map Fecha df)"
  shows "\<exists>i<length (serie_diaria df). Fecha_d (serie_diaria df ! i) = d
           \<and> (\<forall>j<length (serie_diaria df). Fecha_d (serie_diaria df ! j) = d \<longrightarrow> j = i)"
proof -
  let ?ds = "map Fecha_d (serie_diaria df)"
  have dist: "distinct ?ds" by (simp add: serie_diaria_fechas)
  from assms have "d \<in> set ?ds" by (simp add: serie_diaria_fechas no_nulos_set)
  then obtain i where i: "i < length ?ds" "?ds ! i = d" by (auto simp: in_set_conv_nth)
  have u: "\<forall>j<length ?ds. ?ds ! j = d \<longrightarrow> j = i"
    using dist i by (auto simp: distinct_conv_nth)
  from i have i1: "i < length (serie_diaria df)" and i2: "Fecha_d (serie_diaria df ! i) = d"
    by simp_all
  from u have "\<forall>j<length (serie_diaria df). Fecha_d (serie_diaria df ! j) = d \<longrightarrow> j = i"
    by simp
  with i1 i2 show ?thesis by blast
qed

lemma map_Some_the:
  "\<forall>v \<in> set vs. \<exists>y. v = Some y \<Longrightarrow> map Some (map the vs) = vs"
  by (induction vs) auto

lemma limpiar_datos_imagen:
  "r \<in> set (limpiar_datos c df) \<Longrightarrow> \<exists>y. Imagen_Normalizada r = Some y"
proof -
  assume "r \<in> set (limpiar_datos c df)"
  then obtain r0 where r0: "r0 \<in> set df" "fila_valida r0" "r = limpiar_fila c r0"
    using limpiar_datos_mem by blast
  from r0(2) obtain x where "Imagen_del_Candidato r0 = Some x" by (auto simp: fila_valida_def)
  with r0(3) have "Imagen_Normalizada r = Some (clip 0 100 x / 100)"
    by (simp add: limpiar_fila_def derivadas_def)
  then show ?thesis by (rule exI)
qed

lemma serie_diaria_medias_fila:
  fixes df :: "'a fila_limpia_scheme list"
  assumes t: "tracking_electoral df cfg = Inr serie"
    and d: "Some d \<in> set (map Fecha df)"
    and im: "\<forall>r \<in> set df. \<exists>y. Imagen_Normalizada r = Some y"
  shows "\<exists>i ims. i < length serie \<and> Fecha_d (serie ! i) = d
        \<and> (\<forall>j<length serie. Fecha_d (serie ! j) = d \<longrightarrow> j = i)
        \<and> IntencionVoto_d (serie ! i)
            = Some (promedio (map (\<lambda>r. of_int (IntencionVoto r)) (filas_de_fecha df d)))
        \<and> map Imagen_Normalizada (filas_de_fecha df d) = map Some ims
        \<and> ImagenMedia (serie ! i) = Some (promedio ims)"
proof -
  let ?sd = "serie_diaria df"
  let ?g = "filas_de_fecha df d"
  from tracking_electoral_filas[OF t] have l: "length serie = length ?sd"
    and p: "\<forall>i<length serie. Fecha_d (serie ! i) = Fecha_d (?sd ! i)
            \<and> IntencionVoto_d (serie ! i) = IntencionVoto_d (?sd ! i)
            \<and> ImagenMedia (serie ! i) = ImagenMedia (?sd ! i)" by simp_all
  from serie_diaria_fecha[OF d] obtain i where i: "i < length ?sd" "Fecha_d (?sd ! i) = d"
    and u: "\<forall>j<length ?sd. Fecha_d (?sd ! j) = d \<longrightarrow> j = i" by blast
  from d have g: "?g \<noteq> []" by (auto simp: filas_de_fecha_def filter_empty_conv)
  define ims where "ims = map the (map Imagen_Normalizada ?g)"
  have "\<forall>v \<in> set (map Imagen_Normalizada ?g). \<exists>y. v = Some y"
    using im by (auto simp: filas_de_fecha_def)
  then have m: "map Imagen_Normalizada ?g = map Some ims"
    unfolding ims_def by (rule map_Some_the[symmetric])
  from g have ne: "ims \<noteq> []" by (simp add: ims_def)
  have iv: "IntencionVoto_d (?sd ! i) = Some (promedio (map (\<lambda>r. of_int (IntencionVoto r)) ?g))"
  proof -
    have "IntencionVoto_d (?sd ! i) = agg_mean (map (\<lambda>r. Some (of_int (IntencionVoto r))) ?g)"
      using serie_diaria_nth[OF i(1)] i(2) by simp
    also have "map (\<lambda>r. Some (of_int (IntencionVoto r))) ?g
        = map Some (map (\<lambda>r. of_int (IntencionVoto r)) ?g)" by simp
    also have "agg_mean \<dots> = Some (promedio (map (\<lambda>r. of_int (IntencionVoto r)) ?g))"
      using g by (intro agg_mean_Some) simp
    finally show ?thesis .
  qed
  have "ImagenMedia (?sd ! i) = agg_mean (map Imagen_Normalizada ?g)"
    using serie_diaria_nth[OF i(1)] i(2) by simp
  also have "\<dots> = Some (promedio ims)" unfolding m using ne by (rule agg_mean_Some)
  finally have ia: "ImagenMedia (?sd ! i) = Some (promedio ims)" .
  from i(1) l have il: "i < length serie" by simp
  from p il i(2) have f: "Fecha_d (serie ! i) = d" by simp
  from p l u have uu: "\<forall>j<length serie. Fecha_d (serie ! j) = d \<longrightarrow> j = i" by simp
  from p il iv have iv': "IntencionVoto_d (serie ! i)
      = Some (promedio (map (\<lambda>r. of_int (IntencionVoto r)) ?g))" by simp
  from p il ia have ia': "ImagenMedia (serie ! i) = Some (promedio ims)" by simp
  from il f uu iv' m ia' show ?thesis by blast
qed

lemma tracking_electoral_resultado:
  assumes "0 < ventana cfg"
    and "tipo_resumen cfg = ''mean'' \<or> tipo_resumen cfg = ''median'' \<or> tipo_resumen cfg = ''sum''"
    and "columna_objetivo cfg = ''IntencionVoto'' \<or> columna_objetivo cfg = ''ImagenMedia''"
  shows "\<exists>serie. tracking_electoral df cfg = Inr serie"
proof -
  from assms(3) obtain xs where
    "map_of (columnas_serie (serie_diaria df)) (columna_objetivo cfg) = Some (ColNum xs)"
    by (auto simp: columnas_serie_def)
  from aplicar_funcion_ventana_nth[OF assms(1) assms(2) this] obtain ys where
    "aplicar_funcion_ventana (columnas_serie (serie_diaria df)) (columna_objetivo cfg)
       (ventana cfg) (tipo_resumen cfg) = Inr ys" by blast
  then show ?thesis by (simp add: tracking_electoral_def Let_def)
qed

text \<open>
  Claim C2. When \<open>tracking_electoral\<close> returns a series for a cleaned table, every date of
  the table has exactly one row in it; the vote intention of this row is the mean of
  the vote intention over the rows of the cleaned table with this date, and its image
  is the mean of their normalised image, which none of them lacks. It returns a series
  whenever the window is positive, the tag is mean, median or sum and the target column
  is one of the two numeric columns of the series. Two answers of 2024-01-01 with vote
  intention 1 and 0 and normalised image 4/5 and 3/5 give the daily values 1/2 and 7/10.
\<close>

theorem serie_diaria_medias:
  "(\<forall>serie d. tracking_electoral (limpiar_datos c raw) cfg = Inr serie
       \<and> Some d \<in> set (map Fecha (limpiar_datos c raw)) \<longrightarrow>
     (\<exists>i ims. i < length serie \<and> Fecha_d (serie ! i) = d
        \<and> (\<forall>j<length serie. Fecha_d (serie ! j) = d \<longrightarrow> j = i)
        \<and> IntencionVoto_d (serie ! i)
            = Some (promedio (map (\<lambda>r. of_int (IntencionVoto r))
                                (filas_de_fecha (limpiar_datos c raw) d)))
        \<and> map Imagen_Normalizada (filas_de_fecha (limpiar_datos c raw) d) = map Some ims
        \<and> ImagenMedia (serie ! i) = Some (promedio ims)))
   \<and> (0 < ventana cfg
       \<and> (tipo_resumen cfg = ''mean'' \<or> tipo_resumen cfg = ''median'' \<or> tipo_resumen cfg = ''sum'')
       \<and> (columna_objetivo cfg = ''IntencionVoto'' \<or> columna_objetivo cfg = ''ImagenMedia'') \<longrightarrow>
       (\<exists>serie. tracking_electoral (limpiar_datos c raw) cfg = Inr serie))
   \<and> map (\<lambda>r. (Fecha r, IntencionVoto r, Imagen_Normalizada r))
        (limpiar_datos ''Candidato A'' tabla_dia)
       = [(Some 19723, 1, Some (4 / 5)), (Some 19723, 0, Some (3 / 5))]
   \<and> tracking_electoral (limpiar_datos ''Candidato A'' tabla_dia) config_defecto
       = Inr [\<lparr>Fecha_d = 19723, IntencionVoto_d = Some (1 / 2), ImagenMedia = Some (7 / 10),
               TrackingSuavizado = Some (1 / 2)\<rparr>]"
proof (intro conjI allI impI)
  fix serie d
  assume h: "tracking_electoral (limpiar_datos c raw) cfg = Inr serie
       \<and> Some d \<in> set (map Fecha (limpiar_datos c raw))"
  have im: "\<forall>r \<in> set (limpiar_datos c raw). \<exists>y. Imagen_Normalizada r = Some y"
    using limpiar_datos_imagen by blast
  from h have t: "tracking_electoral (limpiar_datos c raw) cfg = Inr serie"
    and d: "Some d \<in> set (map Fecha (limpiar_datos c raw))" by simp_all
  from t d im show "\<exists>i ims. i < length serie \<and> Fecha_d (serie ! i) = d
        \<and> (\<forall>j<length serie. Fecha_d (serie ! j) = d \<longrightarrow> j = i)
        \<and> IntencionVoto_d (serie ! i)
            = Some (promedio (map (\<lambda>r. of_int (IntencionVoto r))
                                (filas_de_fecha (limpiar_datos c raw) d)))
        \<and> map Imagen_Normalizada (filas_de_fecha (limpiar_datos c raw) d) = map Some ims
        \<and> ImagenMedia (serie ! i) = Some (promedio ims)"
    by (rule serie_diaria_medias_fila)
next
  assume "0 < ventana cfg
       \<and> (tipo_resumen cfg = ''mean'' \<or> tipo_resumen cfg = ''median'' \<or> tipo_resumen cfg = ''sum'')
       \<and> (columna_objetivo cfg = ''IntencionVoto'' \<or> columna_objetivo cfg = ''ImagenMedia'')"
  then show "\<exists>serie. tracking_electoral (limpiar_datos c raw) cfg = Inr serie"
    by (intro tracking_electoral_resultado) simp_all
next
  show "map (\<lambda>r. (Fecha r, IntencionVoto r, Imagen_Normalizada r))
        (limpiar_datos ''Candidato A'' tabla_dia)
       = [(Some 19723, 1, Some (4 / 5)), (Some 19723, 0, Some (3 / 5))]"
    by code_simp
next
  show "tracking_electoral (limpiar_datos ''Candidato A'' tabla_dia) config_defecto
       = Inr [\<lparr>Fecha_d = 19723, IntencionVoto_d = Some (1 / 2), ImagenMedia = Some (7 / 10),
               TrackingSuavizado = Some (1 / 2)\<rparr>]"
    by code_simp
qed


text \<open>
  Four answers of two dates under the default configuration: the three answers of the
  earlier date have the means 1/3 and 5/6.
\<close>

theorem serie_diaria_medias_witness:
  "(\<exists>serie i. tracking_electoral (limpiar_datos ''Candidato A'' tabla_dias) config_defecto = Inr serie
       \<and> i < length serie \<and> Fecha_d (serie ! i) = 19723
       \<and> IntencionVoto_d (serie ! i) = Some (1 / 3) \<and> ImagenMedia (serie ! i) = Some (5 / 6))
   \<and> map (\<lambda>r. (Fecha r, IntencionVoto r, Imagen_Normalizada r))
        (limpiar_datos ''Candidato A'' tabla_dias)
       = [(Some 19724, 1, Some (1 / 2)), (Some 19723, 0, Some (3 / 5)),
          (Some 19723, 0, Some (9 / 10)), (Some 19723, 1, Some 1)]
   \<and> tracking_electoral (limpiar_datos ''Candidato A'' tabla_dias) config_defecto
       = Inr [\<lparr>Fecha_d = 19723, IntencionVoto_d = Some (1 / 3), ImagenMedia = Some (5 / 6),
               TrackingSuavizado = Some (1 / 3)\<rparr>,
              \<lparr>Fecha_d = 19724, IntencionVoto_d = Some 1, ImagenMedia = Some (1 / 2),
               TrackingSuavizado = Some (2 / 3)\<rparr>]"
proof -
  let ?X = "limpiar_datos ''Candidato A'' tabla_dias"
  note th = serie_diaria_medias[of "''Candidato A''" tabla_dias config_defecto]
  have c: "0 < ventana config_defecto
       \<and> (tipo_resumen config_defecto = ''mean'' \<or> tipo_resumen config_defecto = ''median''
          \<or> tipo_resumen config_defecto = ''sum'')
       \<and> (columna_objetivo config_defecto = ''IntencionVoto''
          \<or> columna_objetivo config_defecto = ''ImagenMedia'')"
    by (simp add: config_defecto_def)
  from th[THEN conjunct2, THEN conjunct1, THEN mp, OF c]
  obtain serie where s: "tracking_electoral ?X config_defecto = Inr serie" by blast
  have d: "Some 19723 \<in> set (map Fecha ?X)" by code_simp
  from th[THEN conjunct1, THEN spec, THEN spec, THEN mp, OF conjI[OF s d]]
  obtain i ims where i: "i < length serie" "Fecha_d (serie ! i) = 19723"
    and iv: "IntencionVoto_d (serie ! i)
            = Some (promedio (map (\<lambda>r. of_int (IntencionVoto r)) (filas_de_fecha ?X 19723)))"
    and m: "map Imagen_Normalizada (filas_de_fecha ?X 19723) = map Some ims"
    and ia: "ImagenMedia (serie ! i) = Some (promedio ims)"
    by blast
  have e1: "promedio (map (\<lambda>r. of_int (IntencionVoto r)) (filas_de_fecha ?X 19723)) = 1 / 3"
    by code_simp
  have e2: "map Imagen_Normalizada (filas_de_fecha ?X 19723) = map Some [3 / 5, 9 / 10, 1]"
    by code_simp
  from m e2 have "map Some ims = map Some [3 / 5, 9 / 10, 1::rat]" by simp
  then have "ims = [3 / 5, 9 / 10, 1]" by (auto simp: map_eq_Cons_conv)
  then have e3: "promedio ims = 5 / 6" by (simp add: promedio_def)
  from iv e1 have iv': "IntencionVoto_d (serie ! i) = Some (1 / 3)" by simp
  from ia e3 have ia': "ImagenMedia (serie ! i) = Some (5 / 6)" by simp
  have x: "map (\<lambda>r. (Fecha r, IntencionVoto r, Imagen_Normalizada r)) ?X
       = [(Some 19724, 1, Some (1 / 2)), (Some 19723, 0, Some (3 / 5)),
          (Some 19723, 0, Some (9 / 10)), (Some 19723, 1, Some 1)]" by code_simp
  have t: "tracking_electoral ?X config_defecto
       = Inr [\<lparr>Fecha_d = 19723, IntencionVoto_d = Some (1 / 3), ImagenMedia = Some (5 / 6),
               TrackingSuavizado = Some (1 / 3)\<rparr>,
              \<lparr>Fecha_d = 19724, IntencionVoto_d = Some 1, ImagenMedia = Some (1 / 2),
               TrackingSuavizado = Some (2 / 3)\<rparr>]" by code_simp
  from s i iv' ia' x t show ?thesis by blast
qed

end
